theory Spec2Isabelle
  imports Complex_Main
begin

section \<open>Data model of Mod/Measure/App/MeasureDiameter.cpp\<close>

text \<open>
  The enumerators of \<^verbatim>\<open>App::MeasureElementType\<close> that the file names, and one more
  constructor for every enumerator it does not name (the enumeration is declared in
  \<^verbatim>\<open>App/MeasureManager.h\<close>); both selection predicates send those to their last
  \<^verbatim>\<open>return false\<close>.
\<close>

datatype MeasureElementType =
  INVALID | CIRCLE | ARC | CYLINDER | SURFACE | PLANE | OTHER_ELEMENT_TYPE

text \<open>The two enumerations of the geometry kernel that the file compares against.\<close>

datatype TopAbs_ShapeEnum =
  TopAbs_COMPOUND | TopAbs_COMPSOLID | TopAbs_SOLID | TopAbs_SHELL | TopAbs_FACE
| TopAbs_WIRE | TopAbs_EDGE | TopAbs_VERTEX | TopAbs_SHAPE

datatype GeomAbs_CurveType =
  GeomAbs_Line | GeomAbs_Circle | GeomAbs_Ellipse | GeomAbs_Hyperbola | GeomAbs_Parabola
| GeomAbs_BezierCurve | GeomAbs_BSplineCurve | GeomAbs_OffsetCurve | GeomAbs_OtherCurve

text \<open>
  A \<^verbatim>\<open>TopoDS_Shape\<close> as far as the file looks at it: it is null, or it has a shape type
  and the sequence of edges that \<^verbatim>\<open>TopExp_Explorer (shape, TopAbs_EDGE)\<close> visits, each
  edge given by the curve type that \<^verbatim>\<open>BRepAdaptor_Curve (e).GetType ()\<close> reports.
\<close>

datatype TopoDS_Shape =
  NullShape
| Shape TopAbs_ShapeEnum "GeomAbs_CurveType list"

text \<open>
  \<^verbatim>\<open>App::SubObjectT\<close>: the object it resolves to (a null pointer is \<open>None\<close>) and its
  sub-element name. A selection is a vector of elements that carry such a reference in
  their member \<^verbatim>\<open>object\<close>.
\<close>

record 'o SubObjectT =
  getObject :: "'o option"
  getSubName :: string

record 'o MeasureSelectionElement =
  object :: "'o SubObjectT"

type_synonym 'o MeasureSelection = "'o MeasureSelectionElement list"

text \<open>
  \<^verbatim>\<open>Part::MeasureRadiusInfo\<close> with the members the file reads; \<^verbatim>\<open>double\<close> is read as a
  real number. A \<^verbatim>\<open>MeasureInfo\<close> handed back by a measure handler is a radius info or an
  info of another class, of which only the \<^verbatim>\<open>valid\<close> flag is visible.
\<close>

record MeasureRadiusInfo =
  valid :: bool
  radius :: real
  pointOnCurve :: "real \<times> real \<times> real"

datatype MeasureInfo =
  RadiusInfo MeasureRadiusInfo
| OtherInfo bool

fun info_valid :: "MeasureInfo \<Rightarrow> bool" where
  "info_valid (RadiusInfo r) = valid r"
| "info_valid (OtherInfo v) = v"

fun dynamic_pointer_cast :: "MeasureInfo \<Rightarrow> MeasureRadiusInfo option" where
  "dynamic_pointer_cast (RadiusInfo r) = Some r"
| "dynamic_pointer_cast (OtherInfo v) = None"

text \<open>
  What the file calls in the host application and the geometry kernel, taken as
  parameters: \<^verbatim>\<open>App::MeasureManager::getMeasureElementType\<close>,
  \<^verbatim>\<open>Part::Feature::getShape\<close> (always called with the same three shape options),
  \<^verbatim>\<open>MeasureBase::getMeasureInfo\<close> (a null pointer is \<open>None\<close>) and the
  default-constructed \<^verbatim>\<open>Part::MeasureRadiusInfo\<close>.
\<close>

record 'o host =
  getMeasureElementType :: "'o MeasureSelectionElement \<Rightarrow> MeasureElementType"
  getShape :: "'o option \<Rightarrow> string \<Rightarrow> TopoDS_Shape"
  getMeasureInfo :: "'o SubObjectT \<Rightarrow> MeasureInfo option"
  make_MeasureRadiusInfo :: MeasureRadiusInfo

text \<open>\<^verbatim>\<open>std::string::c_str\<close> read as a C string: the characters before the first NUL.\<close>

definition c_str :: "string \<Rightarrow> string" where
  "c_str s = takeWhile (\<lambda>c. c \<noteq> CHR 0x00) s"

section \<open>Selection predicates\<close>

text \<open>
  The edge loop of \<^verbatim>\<open>isValidSelection\<close>: \<open>True\<close> when the loop leaves the function
  with \<^verbatim>\<open>return true\<close>, \<open>False\<close> when the explorer runs out of edges.
\<close>

fun isValidSelection_edges :: "GeomAbs_CurveType list \<Rightarrow> bool" where
  "isValidSelection_edges [] = False"
| "isValidSelection_edges (e # es) =
     (if e = GeomAbs_Circle then True else isValidSelection_edges es)"

definition isValidSelection :: "'o host \<Rightarrow> 'o MeasureSelection \<Rightarrow> bool" where
  "isValidSelection h selection =
     (if selection = [] \<or> length selection > 1 then False
      else
        let element = hd selection;
            type = getMeasureElementType h element
        in
          if type = INVALID then False
          else if type = CIRCLE \<or> type = ARC \<or> type = CYLINDER then True
          else if type = SURFACE \<or> type = PLANE then
            (let element = hd selection;
                 objT = object element;
                 shape = getShape h (getObject objT) (c_str (getSubName objT))
             in
               case shape of
                 NullShape \<Rightarrow> False
               | Shape t es \<Rightarrow>
                   if t = TopAbs_FACE \<and> isValidSelection_edges es then True else False)
          else False)"

text \<open>
  The edge loop of \<^verbatim>\<open>isPrioritizedSelection\<close>, started with \<^verbatim>\<open>foundCircle = false\<close>:
  \<open>None\<close> when the loop leaves the function with \<^verbatim>\<open>return false\<close>, otherwise the value
  of \<^verbatim>\<open>foundCircle\<close> when the explorer runs out of edges.
\<close>

fun isPrioritizedSelection_edges :: "bool \<Rightarrow> GeomAbs_CurveType list \<Rightarrow> bool option" where
  "isPrioritizedSelection_edges foundCircle [] = Some foundCircle"
| "isPrioritizedSelection_edges foundCircle (e # es) =
     (if e \<noteq> GeomAbs_Circle then None
      else isPrioritizedSelection_edges (if e = GeomAbs_Circle then True else foundCircle) es)"

definition isPrioritizedSelection :: "'o host \<Rightarrow> 'o MeasureSelection \<Rightarrow> bool" where
  "isPrioritizedSelection h selection =
     (if length selection \<noteq> 1 then False
      else
        let element = hd selection;
            type = getMeasureElementType h element
        in
          if type = CIRCLE \<or> type = ARC \<or> type = CYLINDER then True
          else if type = SURFACE \<or> type = PLANE then
            (let objT = object element;
                 shape = getShape h (getObject objT) (c_str (getSubName objT))
             in
               case shape of
                 NullShape \<Rightarrow> False
               | Shape t es \<Rightarrow>
                   if t = TopAbs_FACE then
                     (case isPrioritizedSelection_edges False es of
                        None \<Rightarrow> False
                      | Some foundCircle \<Rightarrow> if foundCircle then True else False)
                   else False)
          else False)"

section \<open>The measurement object\<close>

text \<open>
  The property \<^verbatim>\<open>Element\<close> is an \<^verbatim>\<open>App::PropertyLinkSub\<close>: a linked object and its
  sub-element names.
\<close>

record 'o PropertyLinkSub =
  getValue :: "'o option"
  getSubValues :: "string list"

definition setValue :: "'o option \<Rightarrow> string list \<Rightarrow> 'o PropertyLinkSub" where
  "setValue obj subs = \<lparr>getValue = obj, getSubValues = subs\<rparr>"

text \<open>
  The state of a \<^verbatim>\<open>MeasureDiameter\<close>: its two properties and the two status flags that
  \<^verbatim>\<open>onChanged\<close> asks for. The functions below work on every extension of the record, so
  whatever else the object holds is carried along in the record's \<open>more\<close> part.
\<close>

record 'o MeasureDiameter =
  Element :: "'o PropertyLinkSub"
  Diameter :: real
  isRestoring :: bool
  isRemoving :: bool

text \<open>
  \<^verbatim>\<open>parseSelection\<close> calls \<^verbatim>\<open>selection.front ()\<close> without a check; on an empty vector
  that has no defined behaviour, which is the result \<open>None\<close>.
\<close>

definition parseSelection ::
  "'o MeasureSelection \<Rightarrow> ('o, 'z) MeasureDiameter_scheme \<Rightarrow> ('o, 'z) MeasureDiameter_scheme option"
where
  "parseSelection selection s =
     (case selection of
        [] \<Rightarrow> None
      | element # _ \<Rightarrow>
          let objT = object element;
              subElementList = [getSubName objT]
          in Some (s\<lparr>Element := setValue (getObject objT) subElementList\<rparr>))"

definition getMeasureInfoFirst ::
  "'o host \<Rightarrow> ('o, 'z) MeasureDiameter_scheme \<Rightarrow> MeasureRadiusInfo option"
where
  "getMeasureInfoFirst h s =
     (let obj = getValue (Element s);
          subElements = getSubValues (Element s)
      in
        if obj = None \<or> subElements = [] then Some (make_MeasureRadiusInfo h)
        else
          let subject = \<lparr>getObject = obj, getSubName = c_str (hd subElements)\<rparr>;
              info = getMeasureInfo h subject
          in
            case info of
              None \<Rightarrow> Some (make_MeasureRadiusInfo h)
            | Some i \<Rightarrow>
                if \<not> info_valid i then Some (make_MeasureRadiusInfo h)
                else dynamic_pointer_cast i)"

text \<open>
  The result of \<^verbatim>\<open>execute\<close>: \<^verbatim>\<open>DocumentObject::StdReturn\<close>, or a new
  \<^verbatim>\<open>DocumentObjectExecReturn\<close> with its message.
\<close>

datatype DocumentObjectExecReturn =
  StdReturn
| ExecReturn string

definition execute ::
  "'o host \<Rightarrow> ('o, 'z) MeasureDiameter_scheme
     \<Rightarrow> DocumentObjectExecReturn \<times> ('o, 'z) MeasureDiameter_scheme"
where
  "execute h s =
     (case getMeasureInfoFirst h s of
        None \<Rightarrow> (ExecReturn ''Cannot calculate diameter'', s)
      | Some info \<Rightarrow>
          if \<not> valid info then (ExecReturn ''Cannot calculate diameter'', s)
          else (StdReturn, s\<lparr>Diameter := radius info * 2\<rparr>))"

text \<open>
  \<^verbatim>\<open>onChanged\<close> is told which property changed. \<^verbatim>\<open>recompute\<close> (of the document object)
  and \<^verbatim>\<open>MeasureBase::onChanged\<close> are the host's and are parameters here. The result is
  the sequence of these calls that \<^verbatim>\<open>onChanged\<close> makes, and the state they leave; the
  result of \<^verbatim>\<open>recompute\<close> is deleted.
\<close>

datatype Property = Prop_Element | Prop_Diameter | Prop_Other string

datatype call = Call_recompute | Call_MeasureBase_onChanged Property

definition onChanged ::
  "(('o, 'z) MeasureDiameter_scheme
      \<Rightarrow> DocumentObjectExecReturn \<times> ('o, 'z) MeasureDiameter_scheme)
   \<Rightarrow> (Property \<Rightarrow> ('o, 'z) MeasureDiameter_scheme \<Rightarrow> ('o, 'z) MeasureDiameter_scheme)
   \<Rightarrow> ('o, 'z) MeasureDiameter_scheme \<Rightarrow> Property
   \<Rightarrow> call list \<times> ('o, 'z) MeasureDiameter_scheme"
where
  "onChanged recompute MeasureBase_onChanged s prop =
     (if isRestoring s \<or> isRemoving s then ([], s)
      else
        let (calls, s1) =
              (if prop = Prop_Element then
                 (let (ret, s') = recompute s in ([Call_recompute], s'))
               else ([], s))
        in (calls @ [Call_MeasureBase_onChanged prop], MeasureBase_onChanged prop s1))"

section \<open>Predicates on shapes, and concrete inputs\<close>

text \<open>
  The condition on the resolved shape in the words of the specification: a non-null face
  all of whose boundary edges are circular curves.
\<close>

definition nonnull_face_all_edges_circular :: "TopoDS_Shape \<Rightarrow> bool" where
  "nonnull_face_all_edges_circular shape =
     (case shape of
        NullShape \<Rightarrow> False
      | Shape t es \<Rightarrow> t = TopAbs_FACE \<and> list_all (\<lambda>e. e = GeomAbs_Circle) es)"

text \<open>The condition with one circular boundary edge in place of all.\<close>

definition nonnull_face_some_edge_circular :: "TopoDS_Shape \<Rightarrow> bool" where
  "nonnull_face_some_edge_circular shape =
     (case shape of
        NullShape \<Rightarrow> False
      | Shape t es \<Rightarrow> t = TopAbs_FACE \<and> list_ex (\<lambda>e. e = GeomAbs_Circle) es)"

text \<open>
  A host that classifies every element as \<open>t\<close>, resolves every reference to the shape
  \<open>sh\<close>, answers every request for a measure info with \<open>mi\<close>, and whose
  default-constructed radius info is not valid; two selection elements; a measurement
  object.
\<close>

definition const_host ::
  "MeasureElementType \<Rightarrow> TopoDS_Shape \<Rightarrow> MeasureInfo option \<Rightarrow> nat host"
where
  "const_host t sh mi =
     \<lparr>getMeasureElementType = (\<lambda>element. t),
      getShape = (\<lambda>obj name. sh),
      getMeasureInfo = (\<lambda>subject. mi),
      make_MeasureRadiusInfo = \<lparr>valid = False, radius = 0, pointOnCurve = (0, 0, 0)\<rparr>\<rparr>"

definition face1 :: "nat MeasureSelectionElement" where
  "face1 = \<lparr>object = \<lparr>getObject = Some 1, getSubName = ''Face1''\<rparr>\<rparr>"

definition edge2 :: "nat MeasureSelectionElement" where
  "edge2 = \<lparr>object = \<lparr>getObject = Some 2, getSubName = ''Edge2''\<rparr>\<rparr>"

definition measure1 :: "nat MeasureDiameter" where
  "measure1 =
     \<lparr>Element = setValue (Some 1) [''Edge1''], Diameter = 7,
      isRestoring = False, isRemoving = False\<rparr>"

text \<open>
  The same object with one more member, as an object of a derived class has, and a valid
  radius info of radius \<open>r\<close>.
\<close>

definition measure2 :: "(nat, string) MeasureDiameter_scheme" where
  "measure2 =
     \<lparr>Element = setValue (Some 1) [''Edge1''], Diameter = 7,
      isRestoring = False, isRemoving = False, \<dots> = ''Label''\<rparr>"

definition radius_info :: "real \<Rightarrow> MeasureRadiusInfo" where
  "radius_info r = \<lparr>valid = True, radius = r, pointOnCurve = (0, 0, 0)\<rparr>"

text \<open>
  The clause of the specification on what a recompute achieves, "the persisted Diameter
  value is updated from the new element": in the state \<open>s'\<close> after the change,
  \<^verbatim>\<open>Diameter\<close> is twice the radius of the measure info that the state \<open>s\<close>, which
  holds the new element, gives.
\<close>

definition Diameter_updated_from_Element ::
  "'o host \<Rightarrow> ('o, 'z) MeasureDiameter_scheme \<Rightarrow> ('o, 'z) MeasureDiameter_scheme \<Rightarrow> bool"
where
  "Diameter_updated_from_Element h s s' =
     (case getMeasureInfoFirst h s of
        None \<Rightarrow> False
      | Some info \<Rightarrow> Diameter s' = radius info * 2)"

text \<open>
  A host whose handler reports a circle of radius 3.5 for the sub-element \<open>Edge1\<close> and
  no measure info for anything else, and the object \<open>measure1\<close> (whose \<^verbatim>\<open>Diameter\<close> 7
  is that of \<open>Edge1\<close>) after its \<^verbatim>\<open>Element\<close> has been set to \<open>Edge2\<close> of object 2.
\<close>

definition edge1_host :: "nat host" where
  "edge1_host =
     \<lparr>getMeasureElementType = (\<lambda>element. OTHER_ELEMENT_TYPE),
      getShape = (\<lambda>obj name. NullShape),
      getMeasureInfo =
        (\<lambda>subject. if getSubName subject = ''Edge1''
                    then Some (RadiusInfo (radius_info 3.5)) else None),
      make_MeasureRadiusInfo = \<lparr>valid = False, radius = 0, pointOnCurve = (0, 0, 0)\<rparr>\<rparr>"

definition measure_edge2 :: "nat MeasureDiameter" where
  "measure_edge2 = measure1\<lparr>Element := setValue (Some 2) [''Edge2'']\<rparr>"

section \<open>The two edge loops\<close>

lemma isValidSelection_edges_iff:
  "isValidSelection_edges es \<longleftrightarrow> GeomAbs_Circle \<in> set es"
  by (induction es) auto

lemma isPrioritizedSelection_edges_eq:
  "isPrioritizedSelection_edges foundCircle es =
     (if \<forall>e\<in>set es. e = GeomAbs_Circle then Some (foundCircle \<or> es \<noteq> []) else None)"
  by (induction es arbitrary: foundCircle) auto

text \<open>Both predicates on a selection of one element, with the loops read as above.\<close>

lemma isValidSelection_single:
  "isValidSelection h [element] =
     (let type = getMeasureElementType h element in
        type \<in> {CIRCLE, ARC, CYLINDER} \<or>
        (type \<in> {SURFACE, PLANE} \<and>
         nonnull_face_some_edge_circular
           (getShape h (getObject (object element)) (c_str (getSubName (object element))))))"
  by (auto simp: isValidSelection_def nonnull_face_some_edge_circular_def Let_def
        isValidSelection_edges_iff list_ex_iff split: TopoDS_Shape.splits)

lemma isPrioritizedSelection_single:
  "isPrioritizedSelection h [element] =
     (let type = getMeasureElementType h element in
        type \<in> {CIRCLE, ARC, CYLINDER} \<or>
        (type \<in> {SURFACE, PLANE} \<and>
         (case getShape h (getObject (object element)) (c_str (getSubName (object element))) of
            NullShape \<Rightarrow> False
          | Shape t es \<Rightarrow> t = TopAbs_FACE \<and> es \<noteq> [] \<and> (\<forall>e\<in>set es. e = GeomAbs_Circle))))"
  by (auto simp: isPrioritizedSelection_def Let_def
        isPrioritizedSelection_edges_eq split: TopoDS_Shape.splits)

section \<open>Selections of one surface or plane\<close>

text \<open>
  C1, as the specification has it: for a selection of exactly one element whose measure
  element type is SURFACE or PLANE, \<^verbatim>\<open>isValidSelection\<close> is true if and only if the
  resolved shape is a non-null face all of whose boundary edges are circular. The loop of
  \<^verbatim>\<open>isValidSelection\<close> returns true at the first circular edge it meets, so a face
  with a straight edge and a circular edge is accepted: the equivalence fails there.
\<close>

theorem isValidSelection_all_circular_counterexample:
  "\<not> (isValidSelection
          (const_host SURFACE (Shape TopAbs_FACE [GeomAbs_Line, GeomAbs_Circle]) None) [face1]
        \<longleftrightarrow> nonnull_face_all_edges_circular
              (getShape (const_host SURFACE (Shape TopAbs_FACE [GeomAbs_Line, GeomAbs_Circle]) None)
                 (getObject (object face1)) (c_str (getSubName (object face1)))))"
  by (simp add: isValidSelection_def const_host_def nonnull_face_all_edges_circular_def)

text \<open>
  C1, amended: for a selection of exactly one element whose measure element type is
  SURFACE or PLANE, \<^verbatim>\<open>isValidSelection\<close> is true if and only if the resolved shape is a
  non-null face at least one of whose boundary edges is a circular curve.
\<close>

theorem isValidSelection_surface_plane:
  assumes "selection = [element]"
    and "getMeasureElementType h element \<in> {SURFACE, PLANE}"
  shows "isValidSelection h selection \<longleftrightarrow>
         nonnull_face_some_edge_circular
           (getShape h (getObject (object element)) (c_str (getSubName (object element))))"
  using assms by (auto simp: isValidSelection_single Let_def)

theorem isValidSelection_surface_plane_witness:
  "[face1] = [face1]
   \<and> getMeasureElementType
       (const_host SURFACE (Shape TopAbs_FACE [GeomAbs_Line, GeomAbs_Circle]) None) face1
       \<in> {SURFACE, PLANE}
   \<and> isValidSelection
       (const_host SURFACE (Shape TopAbs_FACE [GeomAbs_Line, GeomAbs_Circle]) None) [face1]
   \<and> nonnull_face_some_edge_circular (Shape TopAbs_FACE [GeomAbs_Line, GeomAbs_Circle])"
  using isValidSelection_surface_plane
    [of "[face1]" face1 "const_host SURFACE (Shape TopAbs_FACE [GeomAbs_Line, GeomAbs_Circle]) None"]
  by (simp add: const_host_def nonnull_face_some_edge_circular_def)

section \<open>Selections of one circle, arc or cylinder\<close>

text \<open>
  C3: for a selection of exactly one element whose measure element type is CIRCLE, ARC
  or CYLINDER, \<^verbatim>\<open>isValidSelection\<close> returns true.
\<close>

theorem isValidSelection_circle_arc_cylinder:
  assumes "selection = [element]"
    and "getMeasureElementType h element \<in> {CIRCLE, ARC, CYLINDER}"
  shows "isValidSelection h selection"
  using assms by (auto simp: isValidSelection_def)

theorem isValidSelection_circle_arc_cylinder_witness:
  "[edge2] = [edge2]
   \<and> getMeasureElementType (const_host ARC NullShape None) edge2 \<in> {CIRCLE, ARC, CYLINDER}
   \<and> isValidSelection (const_host ARC NullShape None) [edge2]"
  using isValidSelection_circle_arc_cylinder [of "[edge2]" edge2 "const_host ARC NullShape None"]
  by (simp add: const_host_def)

section \<open>Selections of no element or of several\<close>

text \<open>
  C4: for a selection that is empty or has more than one element, both
  \<^verbatim>\<open>isValidSelection\<close> and \<^verbatim>\<open>isPrioritizedSelection\<close> return false; a selection that
  either of them accepts has exactly one element.
\<close>

theorem selection_size_not_one:
  "(selection = [] \<or> length selection > 1 \<longrightarrow>
      \<not> isValidSelection h selection \<and> \<not> isPrioritizedSelection h selection)
   \<and> (isValidSelection h selection \<or> isPrioritizedSelection h selection \<longrightarrow>
      length selection = 1)"
proof -
  have a: "\<not> isValidSelection h selection \<and> \<not> isPrioritizedSelection h selection"
    if "selection = [] \<or> length selection > 1"
    using that by (auto simp: isValidSelection_def isPrioritizedSelection_def)
  have "length selection = 1"
    if "isValidSelection h selection \<or> isPrioritizedSelection h selection"
  proof (rule ccontr)
    assume "length selection \<noteq> 1"
    then have "selection = [] \<or> length selection > 1" by (cases selection) auto
    with a that show False by blast
  qed
  with a show ?thesis by blast
qed

theorem selection_size_not_one_witness:
  "length [edge2, face1] > 1
   \<and> \<not> isValidSelection (const_host CIRCLE NullShape None) [edge2, face1]
   \<and> \<not> isPrioritizedSelection (const_host CIRCLE NullShape None) [edge2, face1]
   \<and> \<not> isValidSelection (const_host CIRCLE NullShape None) []
   \<and> \<not> isPrioritizedSelection (const_host CIRCLE NullShape None) []
   \<and> isValidSelection (const_host CIRCLE NullShape None) [edge2]
   \<and> length [edge2] = 1"
  using selection_size_not_one [of "[edge2, face1]" "const_host CIRCLE NullShape None"]
    selection_size_not_one [of "[]" "const_host CIRCLE NullShape None"]
    selection_size_not_one [of "[edge2]" "const_host CIRCLE NullShape None"]
  by (simp add: isValidSelection_def const_host_def)

section \<open>Prioritized selections are valid\<close>

text \<open>
  C6: whenever \<^verbatim>\<open>isPrioritizedSelection\<close> returns true, so does
  \<^verbatim>\<open>isValidSelection\<close>. And where the edges decide, that is for one element of type
  SURFACE or PLANE, a face without any boundary edge is rejected by
  \<^verbatim>\<open>isPrioritizedSelection\<close>: \<^verbatim>\<open>foundCircle\<close> is still false after the loop.
\<close>

theorem isPrioritizedSelection_imp_isValidSelection:
  "(isPrioritizedSelection h selection \<longrightarrow> isValidSelection h selection)
   \<and> (\<forall>element. selection = [element]
         \<and> getMeasureElementType h element \<in> {SURFACE, PLANE}
         \<and> getShape h (getObject (object element)) (c_str (getSubName (object element)))
             = Shape TopAbs_FACE []
       \<longrightarrow> \<not> isPrioritizedSelection h selection)"
proof -
  have "isValidSelection h selection" if p: "isPrioritizedSelection h selection"
  proof -
    from p have "length selection = 1"
      by (auto simp: isPrioritizedSelection_def split: if_splits)
    then obtain element where sel: "selection = [element]"
      by (cases selection) auto
    from p show ?thesis
      unfolding sel isPrioritizedSelection_single isValidSelection_single
      by (cases "getShape h (getObject (object element)) (c_str (getSubName (object element)))")
         (auto simp: Let_def nonnull_face_some_edge_circular_def list_ex_iff neq_Nil_conv)
  qed
  moreover have "\<not> isPrioritizedSelection h [element]"
    if "getMeasureElementType h element \<in> {SURFACE, PLANE}"
      and "getShape h (getObject (object element)) (c_str (getSubName (object element)))
             = Shape TopAbs_FACE []"
    for element
    using that by (auto simp: isPrioritizedSelection_single Let_def)
  ultimately show ?thesis by blast
qed

theorem isPrioritizedSelection_imp_isValidSelection_witness:
  "isPrioritizedSelection
     (const_host PLANE (Shape TopAbs_FACE [GeomAbs_Circle, GeomAbs_Circle]) None) [face1]
   \<and> isValidSelection
       (const_host PLANE (Shape TopAbs_FACE [GeomAbs_Circle, GeomAbs_Circle]) None) [face1]
   \<and> getMeasureElementType (const_host PLANE (Shape TopAbs_FACE []) None) face1
       \<in> {SURFACE, PLANE}
   \<and> getShape (const_host PLANE (Shape TopAbs_FACE []) None)
        (getObject (object face1)) (c_str (getSubName (object face1))) = Shape TopAbs_FACE []
   \<and> \<not> isPrioritizedSelection (const_host PLANE (Shape TopAbs_FACE []) None) [face1]"
  using isPrioritizedSelection_imp_isValidSelection
      [of "const_host PLANE (Shape TopAbs_FACE [GeomAbs_Circle, GeomAbs_Circle]) None" "[face1]"]
    isPrioritizedSelection_imp_isValidSelection
      [of "const_host PLANE (Shape TopAbs_FACE []) None" "[face1]"]
  by (simp add: isPrioritizedSelection_def const_host_def)

section \<open>The measure info behind \<^verbatim>\<open>execute\<close>\<close>

text \<open>
  When \<^verbatim>\<open>Element\<close> links an object and has a sub-element, and the handler reports a
  valid radius info for the first sub-element, that info is what
  \<^verbatim>\<open>getMeasureInfoFirst\<close> hands on. Without an object or without sub-elements it is
  the default-constructed info.
\<close>

lemma getMeasureInfoFirst_reported:
  assumes "getValue (Element s) = Some obj"
    and "getSubValues (Element s) = name # names"
    and "getMeasureInfo h \<lparr>getObject = Some obj, getSubName = c_str name\<rparr> = Some (RadiusInfo r)"
    and "valid r"
  shows "getMeasureInfoFirst h s = Some r"
  using assms by (simp add: getMeasureInfoFirst_def)

lemma getMeasureInfoFirst_no_element:
  assumes "getValue (Element s) = None \<or> getSubValues (Element s) = []"
  shows "getMeasureInfoFirst h s = Some (make_MeasureRadiusInfo h)"
  using assms by (auto simp: getMeasureInfoFirst_def)

lemma execute_valid:
  assumes "getMeasureInfoFirst h s = Some info" and "valid info"
  shows "execute h s = (StdReturn, s\<lparr>Diameter := 2 * radius info\<rparr>)"
  using assms by (simp add: execute_def mult.commute)

lemma execute_invalid:
  assumes "getMeasureInfoFirst h s = None
             \<or> (\<exists>info. getMeasureInfoFirst h s = Some info \<and> \<not> valid info)"
  shows "execute h s = (ExecReturn ''Cannot calculate diameter'', s)"
  using assms by (auto simp: execute_def)

section \<open>\<^verbatim>\<open>execute\<close> on a valid measure info\<close>

text \<open>
  C2: in every state in which the first measure info for \<^verbatim>\<open>Element\<close> exists and is
  valid, \<^verbatim>\<open>execute\<close> sets \<^verbatim>\<open>Diameter\<close> to twice the radius of that info and returns
  the success result. In particular, when the handler reports a valid radius info for the
  linked object and its first sub-element, \<^verbatim>\<open>Diameter\<close> becomes twice the radius it
  reports. Numbers are real numbers here; doubling a \<^verbatim>\<open>double\<close> is exact short of
  overflow.
\<close>

theorem execute_sets_Diameter:
  "(\<forall>info. getMeasureInfoFirst h s = Some info \<and> valid info \<longrightarrow>
      execute h s = (StdReturn, s\<lparr>Diameter := 2 * radius info\<rparr>))
   \<and> (\<forall>obj name names r.
        getValue (Element s) = Some obj \<and> getSubValues (Element s) = name # names
        \<and> getMeasureInfo h \<lparr>getObject = Some obj, getSubName = c_str name\<rparr> = Some (RadiusInfo r)
        \<and> valid r \<longrightarrow>
      execute h s = (StdReturn, s\<lparr>Diameter := 2 * radius r\<rparr>))"
proof (intro conjI allI impI)
  fix info
  assume "getMeasureInfoFirst h s = Some info \<and> valid info"
  then show "execute h s = (StdReturn, s\<lparr>Diameter := 2 * radius info\<rparr>)"
    by (simp add: execute_valid)
next
  fix obj name names r
  assume "getValue (Element s) = Some obj \<and> getSubValues (Element s) = name # names
        \<and> getMeasureInfo h \<lparr>getObject = Some obj, getSubName = c_str name\<rparr> = Some (RadiusInfo r)
        \<and> valid r"
  then have "getMeasureInfoFirst h s = Some r" and "valid r"
    by (simp_all add: getMeasureInfoFirst_reported)
  then show "execute h s = (StdReturn, s\<lparr>Diameter := 2 * radius r\<rparr>)"
    by (rule execute_valid)
qed

theorem execute_sets_Diameter_witness:
  "getMeasureInfoFirst (const_host CIRCLE NullShape (Some (RadiusInfo (radius_info 2.5)))) measure1
     = Some (radius_info 2.5)
   \<and> valid (radius_info 2.5)
   \<and> getValue (Element measure1) = Some 1 \<and> getSubValues (Element measure1) = [''Edge1'']
   \<and> execute (const_host CIRCLE NullShape (Some (RadiusInfo (radius_info 2.5)))) measure1
       = (StdReturn, measure1\<lparr>Diameter := 5\<rparr>)"
  using execute_sets_Diameter
    [of "const_host CIRCLE NullShape (Some (RadiusInfo (radius_info 2.5)))" measure1]
  by (simp add: getMeasureInfoFirst_def const_host_def measure1_def setValue_def radius_info_def)

section \<open>\<^verbatim>\<open>execute\<close> without a valid measure info\<close>

text \<open>
  C5: in every state in which the measure info for \<^verbatim>\<open>Element\<close> is absent or not
  valid, \<^verbatim>\<open>execute\<close> returns the error result "Cannot calculate diameter" and leaves
  the state, \<^verbatim>\<open>Diameter\<close> with it, as it was. That covers an \<^verbatim>\<open>Element\<close> without
  object or without sub-elements, given that the default-constructed radius info (whose
  class is declared outside this file) is not valid: that info is what
  \<^verbatim>\<open>getMeasureInfoFirst\<close> hands on then.
\<close>

theorem execute_cannot_calculate:
  "(getMeasureInfoFirst h s = None
      \<or> (\<exists>info. getMeasureInfoFirst h s = Some info \<and> \<not> valid info) \<longrightarrow>
    execute h s = (ExecReturn ''Cannot calculate diameter'', s))
   \<and> (\<not> valid (make_MeasureRadiusInfo h)
       \<and> (getValue (Element s) = None \<or> getSubValues (Element s) = []) \<longrightarrow>
      execute h s = (ExecReturn ''Cannot calculate diameter'', s))"
proof (intro conjI impI)
  assume "getMeasureInfoFirst h s = None
      \<or> (\<exists>info. getMeasureInfoFirst h s = Some info \<and> \<not> valid info)"
  then show "execute h s = (ExecReturn ''Cannot calculate diameter'', s)"
    by (rule execute_invalid)
next
  assume a: "\<not> valid (make_MeasureRadiusInfo h)
       \<and> (getValue (Element s) = None \<or> getSubValues (Element s) = [])"
  then have "getMeasureInfoFirst h s = Some (make_MeasureRadiusInfo h)"
    by (simp add: getMeasureInfoFirst_no_element)
  with a show "execute h s = (ExecReturn ''Cannot calculate diameter'', s)"
    by (simp add: execute_invalid)
qed

theorem execute_cannot_calculate_witness:
  "getMeasureInfoFirst (const_host CIRCLE NullShape (Some (OtherInfo True))) measure1 = None
   \<and> execute (const_host CIRCLE NullShape (Some (OtherInfo True))) measure1
       = (ExecReturn ''Cannot calculate diameter'', measure1)
   \<and> \<not> valid (make_MeasureRadiusInfo
               (const_host CIRCLE NullShape (Some (RadiusInfo (radius_info 2.5)))))
   \<and> getSubValues (Element (measure1\<lparr>Element := setValue (Some 1) []\<rparr>)) = []
   \<and> execute (const_host CIRCLE NullShape (Some (RadiusInfo (radius_info 2.5))))
        (measure1\<lparr>Element := setValue (Some 1) []\<rparr>)
       = (ExecReturn ''Cannot calculate diameter'', measure1\<lparr>Element := setValue (Some 1) []\<rparr>)
   \<and> Diameter (snd (execute (const_host CIRCLE NullShape (Some (RadiusInfo (radius_info 2.5))))
        (measure1\<lparr>Element := setValue (Some 1) []\<rparr>))) = 7"
  using execute_cannot_calculate
      [of "const_host CIRCLE NullShape (Some (OtherInfo True))" measure1]
    execute_cannot_calculate
      [of "const_host CIRCLE NullShape (Some (RadiusInfo (radius_info 2.5)))"
          "measure1\<lparr>Element := setValue (Some 1) []\<rparr>"]
  by (simp add: getMeasureInfoFirst_def const_host_def measure1_def setValue_def)

section \<open>What \<^verbatim>\<open>execute\<close> leaves alone\<close>

text \<open>
  C7: a successful \<^verbatim>\<open>execute\<close> changes the \<^verbatim>\<open>Diameter\<close> property only: the
  \<^verbatim>\<open>Element\<close> property, the status flags and every further member of the object are
  as before. (Assigning a property is the update of that member; what the property
  framework does on an assignment is outside this file.)
\<close>

theorem execute_changes_Diameter_only:
  assumes "execute h s = (StdReturn, s')"
  shows "s' = s\<lparr>Diameter := Diameter s'\<rparr>
         \<and> Element s' = Element s
         \<and> isRestoring s' = isRestoring s
         \<and> isRemoving s' = isRemoving s
         \<and> MeasureDiameter.more s' = MeasureDiameter.more s"
  using assms by (auto simp: execute_def split: option.splits if_splits)

theorem execute_changes_Diameter_only_witness:
  "execute (const_host CIRCLE NullShape (Some (RadiusInfo (radius_info 2.5)))) measure2
     = (StdReturn, measure2\<lparr>Diameter := 5\<rparr>)
   \<and> Element (measure2\<lparr>Diameter := 5\<rparr>) = Element measure2
   \<and> MeasureDiameter.more (measure2\<lparr>Diameter := 5\<rparr>) = ''Label''"
proof -
  have e: "execute (const_host CIRCLE NullShape (Some (RadiusInfo (radius_info 2.5)))) measure2
     = (StdReturn, measure2\<lparr>Diameter := 5\<rparr>)"
    by (simp add: execute_def getMeasureInfoFirst_def const_host_def measure2_def setValue_def
          radius_info_def)
  from execute_changes_Diameter_only [OF e] e show ?thesis
    by (simp add: measure2_def)
qed

section \<open>\<^verbatim>\<open>onChanged\<close> and the recompute\<close>

text \<open>
  C8, as the specification has it: whenever \<^verbatim>\<open>Element\<close> changes and the object is
  neither being restored nor being removed, \<^verbatim>\<open>onChanged\<close> triggers a recompute, so
  the persisted \<^verbatim>\<open>Diameter\<close> is updated from the new element. The recompute is
  triggered, but when the new element has no valid measure info \<^verbatim>\<open>execute\<close> returns
  its error, \<^verbatim>\<open>onChanged\<close> deletes that result, and \<^verbatim>\<open>Diameter\<close> keeps the value
  of the old element: here 7, the diameter of \<open>Edge1\<close>, after the change to \<open>Edge2\<close>.
\<close>

theorem onChanged_Diameter_kept_counterexample:
  "\<not> isRestoring measure_edge2 \<and> \<not> isRemoving measure_edge2
   \<and> fst (onChanged (execute edge1_host) (\<lambda>prop s. s) measure_edge2 Prop_Element)
       = [Call_recompute, Call_MeasureBase_onChanged Prop_Element]
   \<and> Diameter (snd (onChanged (execute edge1_host) (\<lambda>prop s. s) measure_edge2 Prop_Element))
       = 7
   \<and> \<not> Diameter_updated_from_Element edge1_host measure_edge2
         (snd (onChanged (execute edge1_host) (\<lambda>prop s. s) measure_edge2 Prop_Element))"
  by (simp add: onChanged_def execute_def getMeasureInfoFirst_def edge1_host_def
        measure_edge2_def measure1_def setValue_def c_str_def
        Diameter_updated_from_Element_def)

text \<open>
  C8, amended: whenever \<^verbatim>\<open>Element\<close> changes and the object is neither being restored
  nor being removed, \<^verbatim>\<open>onChanged\<close> triggers a recompute of the measurement; with
  \<^verbatim>\<open>execute\<close> as what the recompute runs, the persisted \<^verbatim>\<open>Diameter\<close> is updated to
  twice the radius of the new element's measure info when that info exists and is valid,
  and keeps its previous value otherwise. Changes to any other property, or changes
  during a restore or a removal, trigger no recompute: for another property
  \<^verbatim>\<open>onChanged\<close> only calls \<^verbatim>\<open>MeasureBase::onChanged\<close>, during a restore or a removal
  it calls nothing and changes nothing.
\<close>

theorem onChanged_recompute:
  "(Call_recompute \<in> set (fst (onChanged recompute MeasureBase_onChanged s prop))
      \<longleftrightarrow> prop = Prop_Element \<and> \<not> isRestoring s \<and> \<not> isRemoving s)
   \<and> (prop = Prop_Element \<and> \<not> isRestoring s \<and> \<not> isRemoving s \<longrightarrow>
        onChanged (execute h) MeasureBase_onChanged s prop
          = ([Call_recompute, Call_MeasureBase_onChanged prop],
             MeasureBase_onChanged prop (snd (execute h s)))
        \<and> (\<forall>info. getMeasureInfoFirst h s = Some info \<and> valid info \<longrightarrow>
             snd (onChanged (execute h) MeasureBase_onChanged s prop)
               = MeasureBase_onChanged prop (s\<lparr>Diameter := 2 * radius info\<rparr>))
        \<and> (getMeasureInfoFirst h s = None
             \<or> (\<exists>info. getMeasureInfoFirst h s = Some info \<and> \<not> valid info) \<longrightarrow>
             snd (onChanged (execute h) MeasureBase_onChanged s prop)
               = MeasureBase_onChanged prop s))
   \<and> (prop \<noteq> Prop_Element \<and> \<not> isRestoring s \<and> \<not> isRemoving s \<longrightarrow>
        onChanged recompute MeasureBase_onChanged s prop
          = ([Call_MeasureBase_onChanged prop], MeasureBase_onChanged prop s))
   \<and> (isRestoring s \<or> isRemoving s \<longrightarrow>
        onChanged recompute MeasureBase_onChanged s prop = ([], s))"
proof -
  have 1: "Call_recompute \<in> set (fst (onChanged recompute MeasureBase_onChanged s prop))
      \<longleftrightarrow> prop = Prop_Element \<and> \<not> isRestoring s \<and> \<not> isRemoving s"
    by (auto simp: onChanged_def split: prod.splits)
  have 2: "onChanged (execute h) MeasureBase_onChanged s prop
          = ([Call_recompute, Call_MeasureBase_onChanged prop],
             MeasureBase_onChanged prop (snd (execute h s)))"
    if "prop = Prop_Element \<and> \<not> isRestoring s \<and> \<not> isRemoving s"
    using that by (auto simp: onChanged_def split: prod.splits)
  have 3: "snd (onChanged (execute h) MeasureBase_onChanged s prop)
               = MeasureBase_onChanged prop (s\<lparr>Diameter := 2 * radius info\<rparr>)"
    if "prop = Prop_Element \<and> \<not> isRestoring s \<and> \<not> isRemoving s"
      and "getMeasureInfoFirst h s = Some info \<and> valid info" for info
    using 2 [OF that(1)] execute_valid [of h s info] that(2) by simp
  have 4: "snd (onChanged (execute h) MeasureBase_onChanged s prop)
               = MeasureBase_onChanged prop s"
    if "prop = Prop_Element \<and> \<not> isRestoring s \<and> \<not> isRemoving s"
      and "getMeasureInfoFirst h s = None
             \<or> (\<exists>info. getMeasureInfoFirst h s = Some info \<and> \<not> valid info)"
    using 2 [OF that(1)] execute_invalid [OF that(2)] by simp
  have 5: "onChanged recompute MeasureBase_onChanged s prop
          = ([Call_MeasureBase_onChanged prop], MeasureBase_onChanged prop s)"
    if "prop \<noteq> Prop_Element \<and> \<not> isRestoring s \<and> \<not> isRemoving s"
    using that by (auto simp: onChanged_def)
  have 6: "onChanged recompute MeasureBase_onChanged s prop = ([], s)"
    if "isRestoring s \<or> isRemoving s"
    using that by (auto simp: onChanged_def)
  from 1 2 3 4 5 6 show ?thesis by blast
qed

theorem onChanged_recompute_witness:
  "onChanged (execute edge1_host) (\<lambda>prop s. s) measure1 Prop_Element
     = ([Call_recompute, Call_MeasureBase_onChanged Prop_Element], measure1\<lparr>Diameter := 7\<rparr>)
   \<and> onChanged (execute edge1_host) (\<lambda>prop s. s) (measure1\<lparr>Diameter := 1\<rparr>) Prop_Element
     = ([Call_recompute, Call_MeasureBase_onChanged Prop_Element], measure1\<lparr>Diameter := 7\<rparr>)
   \<and> onChanged (execute edge1_host) (\<lambda>prop s. s) measure_edge2 Prop_Element
     = ([Call_recompute, Call_MeasureBase_onChanged Prop_Element], measure_edge2)
   \<and> onChanged (execute edge1_host) (\<lambda>prop s. s) measure1 Prop_Diameter
     = ([Call_MeasureBase_onChanged Prop_Diameter], measure1)
   \<and> onChanged (execute edge1_host) (\<lambda>prop s. s) (measure1\<lparr>isRestoring := True\<rparr>) Prop_Element
     = ([], measure1\<lparr>isRestoring := True\<rparr>)"
proof -
  let ?i = "radius_info 3.5"
  let ?d = "\<lparr>valid = False, radius = 0, pointOnCurve = (0, 0, 0)\<rparr> :: MeasureRadiusInfo"
  have i: "getMeasureInfoFirst edge1_host measure1 = Some ?i \<and> valid ?i"
    by (simp add: getMeasureInfoFirst_def edge1_host_def measure1_def setValue_def
          radius_info_def c_str_def)
  have i': "getMeasureInfoFirst edge1_host (measure1\<lparr>Diameter := 1\<rparr>) = Some ?i \<and> valid ?i"
    by (simp add: getMeasureInfoFirst_def edge1_host_def measure1_def setValue_def
          radius_info_def c_str_def)
  have n: "getMeasureInfoFirst edge1_host measure_edge2 = Some ?d \<and> \<not> valid ?d"
    by (simp add: getMeasureInfoFirst_def edge1_host_def measure_edge2_def measure1_def
          setValue_def c_str_def)
  have r: "\<not> isRestoring measure1 \<and> \<not> isRemoving measure1
           \<and> \<not> isRestoring measure_edge2 \<and> \<not> isRemoving measure_edge2"
    by (simp add: measure_edge2_def measure1_def)
  have d: "2 * radius ?i = 7"
    by (simp add: radius_info_def)
  from onChanged_recompute
         [of "execute edge1_host" "\<lambda>prop s. s" measure1 Prop_Element edge1_host]
    onChanged_recompute
         [of "execute edge1_host" "\<lambda>prop s. s" "measure1\<lparr>Diameter := 1\<rparr>" Prop_Element
             edge1_host]
    onChanged_recompute
         [of "execute edge1_host" "\<lambda>prop s. s" measure_edge2 Prop_Element edge1_host]
    onChanged_recompute
         [of "execute edge1_host" "\<lambda>prop s. s" measure1 Prop_Diameter edge1_host]
    onChanged_recompute
         [of "execute edge1_host" "\<lambda>prop s. s" "measure1\<lparr>isRestoring := True\<rparr>" Prop_Element
             edge1_host]
    i i' n r d
  show ?thesis by (auto simp: prod_eq_iff)
qed

section \<open>\<^verbatim>\<open>parseSelection\<close>\<close>

text \<open>
  C9: \<^verbatim>\<open>parseSelection\<close> reads the first element of the selection without a check, so
  it has a defined result exactly when the selection is not empty; then it sets
  \<^verbatim>\<open>Element\<close> to the first element's object with one sub-element, that element's
  sub-name, whatever elements follow.
\<close>

theorem parseSelection_front:
  "(parseSelection selection s = None \<longleftrightarrow> selection = [])
   \<and> (\<forall>element rest. selection = element # rest \<longrightarrow>
        parseSelection selection s =
          Some (s\<lparr>Element := \<lparr>getValue = getObject (object element),
                               getSubValues = [getSubName (object element)]\<rparr>\<rparr>))"
  by (auto simp: parseSelection_def setValue_def Let_def split: list.splits)

theorem parseSelection_front_witness:
  "parseSelection [face1, edge2] measure1
     = Some (measure1\<lparr>Element := \<lparr>getValue = Some 1, getSubValues = [''Face1'']\<rparr>\<rparr>)
   \<and> parseSelection [] measure1 = None"
  using parseSelection_front [of "[face1, edge2]" measure1]
    parseSelection_front [of "[]" measure1]
  by (simp add: face1_def)

end
